theory Spec2Isabelle
  imports Main
begin

section \<open>JavaScript values used by server.js\<close>

text \<open>
  A string-valued JSON field that may be missing or null is a \<open>string option\<close>.
  JavaScript treats \<open>undefined\<close>, \<open>null\<close> and the empty string as falsy and every
  other string as truthy.
\<close>

definition truthy :: "string option \<Rightarrow> bool" where
  "truthy v = (case v of None \<Rightarrow> False | Some s \<Rightarrow> s \<noteq> [])"

text \<open>The expression \<open>v || d\<close> on such a field.\<close>

definition or_else :: "string option \<Rightarrow> string \<Rightarrow> string" where
  "or_else v d = (case v of None \<Rightarrow> d | Some s \<Rightarrow> if s = [] then d else s)"

definition startsWith :: "string \<Rightarrow> string \<Rightarrow> bool" where
  "startsWith s p = (take (length p) s = p)"

datatype error = Error (message: string)

text \<open>
  Reading a property of \<open>undefined\<close> throws a TypeError; the text of its message is the
  engine's (V8 wording).
\<close>

definition cannot_read :: "string \<Rightarrow> error" where
  "cannot_read prop =
     Error (''Cannot read properties of undefined (reading '' @ [CHR 0x27] @ prop @ [CHR 0x27] @ '')'')"

section \<open>The Admin API call\<close>

text \<open>
  What \<open>fetch\<close> followed by \<open>resp.json()\<close> gives: either the promise rejects with an
  error message, or it resolves to a body with an \<open>errors\<close> array (empty when the field
  is missing; each entry kept as its JSON text) and the \<open>data\<close> field.
\<close>

datatype 'd fetch_result = Rejected string | Resolved "string list" 'd

fun join_comma :: "string list \<Rightarrow> string" where
  "join_comma [] = []"
| "join_comma [x] = x"
| "join_comma (x # y # ys) = x @ '','' @ join_comma (y # ys)"

definition JSON_stringify :: "string list \<Rightarrow> string" where
  "JSON_stringify xs = ''['' @ join_comma xs @ '']''"

definition callAdmin :: "'d fetch_result \<Rightarrow> error + 'd" where
  "callAdmin r =
     (case r of
        Rejected m \<Rightarrow> Inl (Error m)
      | Resolved errs d \<Rightarrow>
          if length errs \<noteq> 0 then Inl (Error (''GraphQL errors: '' @ JSON_stringify errs))
          else Inr d)"

section \<open>Content type\<close>

definition getShopifyContentType :: "string \<Rightarrow> string" where
  "getShopifyContentType mimetype =
     (if startsWith mimetype ''video/'' then ''VIDEO''
      else if startsWith mimetype ''image/'' then ''IMAGE''
      else ''FILE'')"

section \<open>Data of the upload route\<close>

record user_error =
  ue_field :: string
  ue_message :: string

record parameter =
  param_name :: string
  param_value :: string

record staged_target =
  url :: string
  resourceUrl :: string
  parameters :: "parameter list"

record staged_uploads_create =
  stagedTargets :: "staged_target list"
  userErrors :: "user_error list"

record created_file =
  created_typename :: string
  created_id :: string

record file_create =
  files :: "created_file list"
  fileUserErrors :: "user_error list"

record media_image =
  image_url :: "string option"

record video_source =
  source_url :: "string option"
  source_format :: "string option"

record node =
  typename :: string
  fileStatus :: "string option"
  node_url :: "string option"
  node_image :: "media_image option"
  sources :: "video_source list option"

text \<open>The uploaded file as multer hands it over (\<open>req.file\<close>); bytes as numbers.\<close>

record uploaded_file =
  buffer :: "nat list"
  originalname :: string
  mimetype :: string
  fsize :: nat

text \<open>
  The storage backend's answer. \<open>ok\<close> is node-fetch's \<open>Response.ok\<close>, library code
  outside the repository: true exactly for a status from 200 to 299. Reading the body
  (\<open>text()\<close>) may reject.
\<close>

record storage_res =
  storage_status :: nat
  storage_text :: "string + string"

definition ok :: "storage_res \<Rightarrow> bool" where
  "ok r = (200 \<le> storage_status r \<and> storage_status r < 300)"

text \<open>A multipart form is the list of its entries in the order they were appended.\<close>

datatype form_entry =
  FormField string string
| FileEntry string "nat list" string string

definition form_append :: "form_entry list \<Rightarrow> form_entry \<Rightarrow> form_entry list" where
  "form_append form e = form @ [e]"

text \<open>The outgoing calls of one request, in the order they are made.\<close>

datatype call =
  StagedUploadsCreate string string nat
| StorageUpload string "form_entry list"
| FileCreate string string string
| PollNode string

text \<open>What the outside world answers during one request.\<close>

record platform =
  staged_result :: "staged_uploads_create fetch_result"
  storage_result :: "string + storage_res"
  create_result :: "file_create fetch_result"
  poll_result :: "nat \<Rightarrow> node option fetch_result"

datatype json = JString string | JErrors "user_error list"

text \<open>
  What the client receives: the status and the JSON object of the body, \<open>None\<close> when
  no body is sent.
\<close>

record response =
  status :: nat
  body :: "(string \<times> json) list option"

text \<open>
  \<open>res.status(code).json(obj)\<close>. Express (library code outside the repository) sends
  no body with the statuses 204 and 304, whatever \<open>json\<close> is given. Of the two only
  304 can reach this route's answers: the route passes a storage status on only when
  it is outside 200 to 299.
\<close>

definition respond :: "nat \<Rightarrow> (string \<times> json) list \<Rightarrow> response" where
  "respond code obj =
     \<lparr>status = code, body = (if code = 204 \<or> code = 304 then None else Some obj)\<rparr>"

section \<open>The polling loop\<close>

text \<open>\<open>node.image?.url\<close> and \<open>node.sources?.[0]?.url\<close>.\<close>

definition image_url_of :: "node \<Rightarrow> string option" where
  "image_url_of n = (case node_image n of None \<Rightarrow> None | Some im \<Rightarrow> image_url im)"

definition first_source_url :: "node \<Rightarrow> string option" where
  "first_source_url n =
     (case sources n of None \<Rightarrow> None | Some [] \<Rightarrow> None | Some (s # _) \<Rightarrow> source_url s)"

record poll_state =
  finalUrl :: "string option"
  lastStatus :: "string option"

text \<open>
  The \<open>for\<close> loop of the route, lines 172 to 195. \<open>i\<close> is the loop counter, \<open>cs\<close> the
  status queries made so far; the one-second pause between attempts has no effect on
  the result and is left out.
\<close>

function poll_loop ::
  "int \<Rightarrow> (nat \<Rightarrow> node option fetch_result) \<Rightarrow> string \<Rightarrow> nat \<Rightarrow> poll_state \<Rightarrow> call list
     \<Rightarrow> (error + poll_state) \<times> call list" where
  "poll_loop POLL_ATTEMPTS reply ident i st cs =
     (if int i < POLL_ATTEMPTS then
        (case callAdmin (reply i) of
           Inl e \<Rightarrow> (Inl e, cs @ [PollNode ident])
         | Inr None \<Rightarrow> (Inr st, cs @ [PollNode ident])
         | Inr (Some n) \<Rightarrow>
             if fileStatus n = Some ''READY'' \<and> typename n = ''GenericFile'' \<and> truthy (node_url n)
             then (Inr (st\<lparr>lastStatus := fileStatus n, finalUrl := node_url n\<rparr>),
                   cs @ [PollNode ident])
             else if fileStatus n = Some ''READY'' \<and> typename n = ''MediaImage''
                     \<and> truthy (image_url_of n)
             then (Inr (st\<lparr>lastStatus := fileStatus n, finalUrl := image_url_of n\<rparr>),
                   cs @ [PollNode ident])
             else if fileStatus n = Some ''READY'' \<and> typename n = ''Video''
                     \<and> truthy (first_source_url n)
             then (Inr (st\<lparr>lastStatus := fileStatus n, finalUrl := first_source_url n\<rparr>),
                   cs @ [PollNode ident])
             else poll_loop POLL_ATTEMPTS reply ident (Suc i) (st\<lparr>lastStatus := fileStatus n\<rparr>)
                    (cs @ [PollNode ident]))
      else (Inr st, cs))"
  by pat_completeness auto
termination
  by (relation "measure (\<lambda>(c, r, ident, i, st, cs). nat (c - int i))") auto

declare poll_loop.simps [simp del]

definition timeout_response :: "string \<Rightarrow> response" where
  "timeout_response s =
     respond 500 [(''error'', JString ''File did not become READY in time''),
                  (''status'', JString s)]"

text \<open>The loop from its initial state, followed by lines 197 to 205.\<close>

definition readiness_poller ::
  "int \<Rightarrow> (nat \<Rightarrow> node option fetch_result) \<Rightarrow> string \<Rightarrow> (error + response) \<times> call list" where
  "readiness_poller POLL_ATTEMPTS reply ident =
     (case poll_loop POLL_ATTEMPTS reply ident 0 \<lparr>finalUrl = None, lastStatus = None\<rparr> [] of
        (Inl e, cs) \<Rightarrow> (Inl e, cs)
      | (Inr st, cs) \<Rightarrow>
          (case finalUrl st of
             None \<Rightarrow> (Inr (timeout_response (or_else (lastStatus st) ''UNKNOWN'')), cs)
           | Some u \<Rightarrow>
               if u = [] then (Inr (timeout_response (or_else (lastStatus st) ''UNKNOWN'')), cs)
               else (Inr (respond 200 [(''url'', JString u)]), cs)))"

section \<open>The upload route\<close>

text \<open>Lines 102 to 104: one field per staged parameter, then the file.\<close>

definition uploadForm :: "staged_target \<Rightarrow> uploaded_file \<Rightarrow> form_entry list" where
  "uploadForm target f =
     form_append
       (foldl (\<lambda>form p. form_append form (FormField (param_name p) (param_value p))) []
          (parameters target))
       (FileEntry ''file'' (buffer f) (originalname f) (mimetype f))"

text \<open>Lines 119 to 205: registration of the uploaded blob, then polling.\<close>

definition register_and_poll ::
  "int \<Rightarrow> platform \<Rightarrow> uploaded_file \<Rightarrow> staged_target \<Rightarrow> (error + response) \<times> call list" where
  "register_and_poll POLL_ATTEMPTS w f target =
     (let contentType = getShopifyContentType (mimetype f);
          c = FileCreate (resourceUrl target) (originalname f) contentType
      in case callAdmin (create_result w) of
           Inl e \<Rightarrow> (Inl e, [c])
         | Inr fileCreate \<Rightarrow>
             if length (fileUserErrors fileCreate) \<noteq> 0
             then (Inr (respond 422 [(''errors'', JErrors (fileUserErrors fileCreate))]), [c])
             else (case files fileCreate of
                     [] \<Rightarrow> (Inl (cannot_read ''__typename''), [c])
                   | created # _ \<Rightarrow>
                       (case readiness_poller POLL_ATTEMPTS (poll_result w) (created_id created) of
                          (r, cs) \<Rightarrow> (r, c # cs))))"

text \<open>Lines 102 to 117: the multipart POST to the staged target.\<close>

definition upload_blob ::
  "int \<Rightarrow> platform \<Rightarrow> uploaded_file \<Rightarrow> staged_target \<Rightarrow> (error + response) \<times> call list" where
  "upload_blob POLL_ATTEMPTS w f target =
     (let c = StorageUpload (url target) (uploadForm target f)
      in case storage_result w of
           Inl m \<Rightarrow> (Inl (Error m), [c])
         | Inr storageRes \<Rightarrow>
             if \<not> ok storageRes
             then (case storage_text storageRes of
                     Inl m \<Rightarrow> (Inl (Error m), [c])
                   | Inr t \<Rightarrow>
                       (Inr (respond (storage_status storageRes)
                               [(''error'', JString ''Storage upload failed''),
                                (''details'', JString t)]), [c]))
             else (case register_and_poll POLL_ATTEMPTS w f target of
                     (r, cs) \<Rightarrow> (r, c # cs)))"

text \<open>The body of the \<open>try\<close> block, lines 70 to 205.\<close>

definition try_upload ::
  "int \<Rightarrow> platform \<Rightarrow> uploaded_file option \<Rightarrow> (error + response) \<times> call list" where
  "try_upload POLL_ATTEMPTS w req_file =
     (case req_file of
        None \<Rightarrow> (Inr (respond 400 [(''error'', JString ''No file provided'')]), [])
      | Some f \<Rightarrow>
          (let c = StagedUploadsCreate (originalname f) (mimetype f) (fsize f)
           in case callAdmin (staged_result w) of
                Inl e \<Rightarrow> (Inl e, [c])
              | Inr stagedUploadsCreate \<Rightarrow>
                  if length (userErrors stagedUploadsCreate) \<noteq> 0
                  then (Inr (respond 422 [(''errors'', JErrors (userErrors stagedUploadsCreate))]),
                        [c])
                  else (case stagedTargets stagedUploadsCreate of
                          [] \<Rightarrow> (Inl (cannot_read ''resourceUrl''), [c])
                        | target # _ \<Rightarrow>
                            (case upload_blob POLL_ATTEMPTS w f target of
                               (r, cs) \<Rightarrow> (r, c # cs)))))"

text \<open>The route handler: the \<open>try\<close> block and its \<open>catch\<close>, lines 207 to 210.\<close>

definition upload_handler ::
  "int \<Rightarrow> platform \<Rightarrow> uploaded_file option \<Rightarrow> response \<times> call list" where
  "upload_handler POLL_ATTEMPTS w req_file =
     (case try_upload POLL_ATTEMPTS w req_file of
        (Inl err, cs) \<Rightarrow> (respond 500 [(''error'', JString (message err))], cs)
      | (Inr r, cs) \<Rightarrow> (r, cs))"

section \<open>Vocabulary of the properties\<close>

text \<open>
  The kind-specific URL of a node, read from the fields of the answer: \<open>url\<close> of a
  GenericFile, \<open>image.url\<close> of a MediaImage, \<open>url\<close> of the first entry of \<open>sources\<close>
  of a Video. A missing field, a missing first entry or an empty string gives none.
\<close>

fun nonempty :: "string option \<Rightarrow> string option" where
  "nonempty None = None"
| "nonempty (Some u) = (if u = [] then None else Some u)"

definition extractable_url :: "node \<Rightarrow> string option" where
  "extractable_url n =
     (if typename n = ''GenericFile'' then nonempty (node_url n)
      else if typename n = ''MediaImage'' then
        (case node_image n of None \<Rightarrow> None | Some im \<Rightarrow> nonempty (image_url im))
      else if typename n = ''Video'' then
        (case sources n of
           None \<Rightarrow> None
         | Some [] \<Rightarrow> None
         | Some (s # rest) \<Rightarrow> nonempty (source_url s))
      else None)"

definition ready_with_url :: "node \<Rightarrow> bool" where
  "ready_with_url n = (fileStatus n = Some ''READY'' \<and> extractable_url n \<noteq> None)"

text \<open>
  An answer to a status query that keeps the loop going: the call returns, the node is
  not null, and it is not READY with an extractable URL.
\<close>

fun still_pending :: "node option fetch_result \<Rightarrow> bool" where
  "still_pending (Resolved errs (Some n)) = (errs = [] \<and> \<not> ready_with_url n)"
| "still_pending _ = False"

fun status_seen :: "node option fetch_result \<Rightarrow> string option" where
  "status_seen (Resolved errs (Some n)) = fileStatus n"
| "status_seen _ = None"

fun is_FileCreate :: "call \<Rightarrow> bool" where
  "is_FileCreate (FileCreate a b c) = True"
| "is_FileCreate _ = False"

text \<open>
  Following the spec's words, for comparison with the route: a timeout carries "the last
  observed non-null status, or UNKNOWN if no status was ever observed". The argument
  is the list of the statuses of the attempts, in order.
\<close>

definition spec_last_observed :: "string option list \<Rightarrow> string" where
  "spec_last_observed sts =
     (case rev (List.map_filter (\<lambda>s. s) sts) of [] \<Rightarrow> ''UNKNOWN'' | s # _ \<Rightarrow> s)"

section \<open>Example data\<close>

text \<open>Nodes of the three kinds, an uploaded file, a staged target and answers of the platform.\<close>

definition generic_file_node :: "string option \<Rightarrow> string option \<Rightarrow> node" where
  "generic_file_node s u =
     \<lparr>typename = ''GenericFile'', fileStatus = s, node_url = u, node_image = None, sources = None\<rparr>"

definition media_image_node :: "string option \<Rightarrow> string option \<Rightarrow> node" where
  "media_image_node s u =
     \<lparr>typename = ''MediaImage'', fileStatus = s, node_url = None,
      node_image = Some \<lparr>image_url = u\<rparr>, sources = None\<rparr>"

definition video_node :: "string option \<Rightarrow> video_source list \<Rightarrow> node" where
  "video_node s srcs =
     \<lparr>typename = ''Video'', fileStatus = s, node_url = None, node_image = None,
      sources = Some srcs\<rparr>"

text \<open>A node of another kind: none of the fragments of the query applies to it.\<close>

definition other_node :: node where
  "other_node =
     \<lparr>typename = ''Model3d'', fileStatus = None, node_url = None, node_image = None,
      sources = None\<rparr>"

text \<open>The platform answers the \<open>j\<close>-th status query with the \<open>j\<close>-th entry of a list.\<close>

definition answers :: "node option list \<Rightarrow> nat \<Rightarrow> node option fetch_result" where
  "answers ns j = (if j < length ns then Resolved [] (ns ! j) else Rejected ''no answer'')"

text \<open>The platform answers every status query with the same node.\<close>

definition always_answers :: "node \<Rightarrow> nat \<Rightarrow> node option fetch_result" where
  "always_answers n j = Resolved [] (Some n)"

definition cat_png :: uploaded_file where
  "cat_png = \<lparr>buffer = [137, 80, 78, 71], originalname = ''cat.png'',
              mimetype = ''image/png'', fsize = 1024\<rparr>"

definition target_T :: staged_target where
  "target_T =
     \<lparr>url = ''https://storage.example/upload'',
      resourceUrl = ''https://storage.example/tmp/cat.png'',
      parameters = [\<lparr>param_name = ''key'', param_value = ''tmp/cat.png''\<rparr>,
                    \<lparr>param_name = ''policy'', param_value = ''abc''\<rparr>]\<rparr>"

text \<open>
  A platform that answers the staging call with the given payload and the multipart
  POST with the given status and body.
\<close>

definition world :: "staged_uploads_create \<Rightarrow> nat \<Rightarrow> string \<Rightarrow> platform" where
  "world staged code txt =
     \<lparr>staged_result = Resolved [] staged,
      storage_result = Inr \<lparr>storage_status = code, storage_text = Inr txt\<rparr>,
      create_result = Rejected ''not reached'',
      poll_result = (\<lambda>j. Rejected ''not reached'')\<rparr>"

section \<open>Helper lemmas\<close>


lemma callAdmin_Resolved [simp]: "callAdmin (Resolved [] d) = Inr d"
  by (simp add: callAdmin_def)

lemma truthy_simps [simp]: "truthy None = False" "truthy (Some s) = (s \<noteq> [])"
  by (simp_all add: truthy_def)

lemma nonempty_Some: "nonempty v = Some u \<longleftrightarrow> v = Some u \<and> u \<noteq> []"
  by (cases v) auto

lemma nonempty_None: "nonempty v = None \<longleftrightarrow> \<not> truthy v"
  by (cases v) auto

lemma extractable_url_truthy: "extractable_url n = Some u \<Longrightarrow> u \<noteq> []"
  by (auto simp: extractable_url_def nonempty_Some split: if_splits option.splits list.splits)

lemma poll_step_pending:
  assumes "int i < c" and "still_pending (reply i)"
  shows "poll_loop c reply ident i st cs =
         poll_loop c reply ident (Suc i) (st\<lparr>lastStatus := status_seen (reply i)\<rparr>)
           (cs @ [PollNode ident])"
proof -
  from assms(2) obtain n where r: "reply i = Resolved [] (Some n)" and nr: "\<not> ready_with_url n"
    by (cases "reply i" rule: still_pending.cases) auto
  show ?thesis
    using assms(1) r nr
    by (subst poll_loop.simps)
      (auto simp: ready_with_url_def extractable_url_def nonempty_None image_url_of_def
         first_source_url_def split: option.splits list.splits)
qed

lemma poll_step_ready:
  assumes "int i < c" and "reply i = Resolved [] (Some n)"
    and "fileStatus n = Some ''READY''" and "extractable_url n = Some u"
  shows "poll_loop c reply ident i st cs =
         (Inr (st\<lparr>lastStatus := Some ''READY'', finalUrl := Some u\<rparr>), cs @ [PollNode ident])"
  using assms
  by (subst poll_loop.simps)
    (auto simp: extractable_url_def nonempty_Some image_url_of_def first_source_url_def
       split: if_splits option.splits list.splits)

lemma poll_step_null:
  assumes "int i < c" and "reply i = Resolved [] None"
  shows "poll_loop c reply ident i st cs = (Inr st, cs @ [PollNode ident])"
  using assms by (subst poll_loop.simps) simp

lemma poll_step_exhausted:
  assumes "\<not> int i < c"
  shows "poll_loop c reply ident i st cs = (Inr st, cs)"
  using assms by (subst poll_loop.simps) simp

lemma poll_loop_run:
  assumes "int (i + k) \<le> c" and "\<forall>j. i \<le> j \<and> j < i + k \<longrightarrow> still_pending (reply j)"
  shows "poll_loop c reply ident i st cs =
         poll_loop c reply ident (i + k)
           (st\<lparr>lastStatus := (if k = 0 then lastStatus st else status_seen (reply (i + k - 1)))\<rparr>)
           (cs @ replicate k (PollNode ident))"
  using assms
proof (induction k arbitrary: i st cs)
  case 0
  then show ?case by simp
next
  case (Suc k)
  have step: "poll_loop c reply ident i st cs =
      poll_loop c reply ident (Suc i) (st\<lparr>lastStatus := status_seen (reply i)\<rparr>)
        (cs @ [PollNode ident])"
    using Suc.prems by (intro poll_step_pending) auto
  have rest: "poll_loop c reply ident (Suc i) (st\<lparr>lastStatus := status_seen (reply i)\<rparr>)
        (cs @ [PollNode ident]) =
      poll_loop c reply ident (Suc i + k)
        ((st\<lparr>lastStatus := status_seen (reply i)\<rparr>)
           \<lparr>lastStatus := (if k = 0 then lastStatus (st\<lparr>lastStatus := status_seen (reply i)\<rparr>)
                            else status_seen (reply (Suc i + k - 1)))\<rparr>)
        ((cs @ [PollNode ident]) @ replicate k (PollNode ident))"
    using Suc.prems by (intro Suc.IH) auto
  show ?case
    unfolding step rest by (simp add: replicate_app_Cons_same)
qed

lemma starts_with_iff: "startsWith s p \<longleftrightarrow> (\<exists>rest. s = p @ rest)"
proof
  assume "startsWith s p"
  then have "s = p @ drop (length p) s"
    unfolding startsWith_def by (metis append_take_drop_id)
  then show "\<exists>rest. s = p @ rest" ..
next
  assume "\<exists>rest. s = p @ rest"
  then show "startsWith s p"
    by (auto simp: startsWith_def)
qed

lemma foldl_form_append:
  "foldl (\<lambda>form p. form_append form (g p)) acc ps = acc @ map g ps"
  by (induction ps arbitrary: acc) (simp_all add: form_append_def)

lemma uploadForm_entries:
  "uploadForm target f =
     map (\<lambda>p. FormField (param_name p) (param_value p)) (parameters target)
     @ [FileEntry ''file'' (buffer f) (originalname f) (mimetype f)]"
  unfolding uploadForm_def foldl_form_append by (simp add: form_append_def)

lemma try_upload_staged:
  assumes "staged_result w = Resolved [] s" and "userErrors s = []"
    and "stagedTargets s = target # others"
  shows "try_upload c w (Some f) =
         (case upload_blob c w f target of
            (r, cs) \<Rightarrow> (r, StagedUploadsCreate (originalname f) (mimetype f) (fsize f) # cs))"
  using assms by (simp add: try_upload_def)

lemma upload_blob_failure:
  assumes "storage_result w = Inr r" and "\<not> ok r" and "storage_text r = Inr t"
  shows "upload_blob c w f target =
         (Inr (respond (storage_status r)
                 [(''error'', JString ''Storage upload failed''), (''details'', JString t)]),
          [StorageUpload (url target) (uploadForm target f)])"
  using assms by (simp add: upload_blob_def)

lemma upload_blob_calls:
  "\<exists>later. snd (upload_blob c w f target) =
            StorageUpload (url target) (uploadForm target f) # later"
  by (auto simp: upload_blob_def Let_def split: sum.splits prod.splits)

lemma poll_loop_calls_extend:
  "\<exists>later. snd (poll_loop c reply ident i st cs) = cs @ later"
proof (induction c reply ident i st cs rule: poll_loop.induct)
  case (1 c reply ident i st cs)
  show ?case
    by (subst poll_loop.simps) (use 1 in \<open>auto split: sum.splits option.splits\<close>)
qed

lemma poll_loop_queries_first:
  assumes "int i < c"
  shows "\<exists>later. snd (poll_loop c reply ident i st cs) = cs @ PollNode ident # later"
proof -
  have *: "\<exists>later. snd (poll_loop c reply ident (Suc i) st' (cs @ [PollNode ident])) =
             (cs @ [PollNode ident]) @ later" for st'
    by (rule poll_loop_calls_extend)
  show ?thesis
    by (subst poll_loop.simps) (use assms * in \<open>auto split: sum.splits option.splits\<close>)
qed

lemma storage_failure_response:
  assumes "staged_result w = Resolved [] s" and "userErrors s = []"
    and "stagedTargets s = target # others"
    and "storage_result w = Inr r"
    and "\<not> (200 \<le> storage_status r \<and> storage_status r < 300)"
    and "storage_text r = Inr t"
  shows "upload_handler c w (Some f) =
           (respond (storage_status r)
              [(''error'', JString ''Storage upload failed''), (''details'', JString t)],
            [StagedUploadsCreate (originalname f) (mimetype f) (fsize f),
             StorageUpload (url target) (uploadForm target f)])"
proof -
  have "\<not> ok r"
    using assms(5) by (simp add: ok_def)
  then show ?thesis
    by (simp add: upload_handler_def try_upload_staged [OF assms(1-3)]
          upload_blob_failure [OF assms(4) _ assms(6)])
qed

section \<open>The readiness poller\<close>

text \<open>
  Claim C1, as the code has it. When every status query up to the ceiling returns a
  non-null node that is not READY with an extractable URL, the poller makes exactly
  \<open>POLL_ATTEMPTS\<close> status queries (none for a ceiling that is not positive) and answers
  500 with the timeout body. The reported status is the status of the node seen on the
  last attempt; it is \<open>UNKNOWN\<close> when no attempt was made or when that last node carried
  no status (missing or empty), whatever earlier attempts saw: each attempt overwrites
  \<open>lastStatus\<close>.
\<close>

theorem poller_exhausts_ceiling:
  assumes "\<forall>j. int j < c \<longrightarrow> still_pending (reply j)"
  shows "readiness_poller c reply ident =
         (Inr \<lparr>status = 500,
                body = Some [(''error'', JString ''File did not become READY in time''),
                             (''status'',
                              JString (if c \<le> 0 then ''UNKNOWN''
                                       else case status_seen (reply (nat c - 1)) of
                                              None \<Rightarrow> ''UNKNOWN''
                                            | Some s \<Rightarrow> if s = [] then ''UNKNOWN'' else s))]\<rparr>,
          replicate (nat c) (PollNode ident))"
proof (cases "c \<le> 0")
  case True
  then have stop: "\<not> int 0 < c" by simp
  show ?thesis
    unfolding readiness_poller_def poll_step_exhausted [OF stop]
    using True by (simp add: or_else_def timeout_response_def respond_def)
next
  case False
  let ?init = "\<lparr>finalUrl = None, lastStatus = None\<rparr>"
  let ?k = "nat c"
  have run: "poll_loop c reply ident 0 ?init [] =
      poll_loop c reply ident (0 + ?k)
        (?init\<lparr>lastStatus := (if ?k = 0 then lastStatus ?init else status_seen (reply (0 + ?k - 1)))\<rparr>)
        ([] @ replicate ?k (PollNode ident))"
    using assms False by (intro poll_loop_run) auto
  have stop: "\<not> int (0 + ?k) < c" by simp
  show ?thesis
    unfolding readiness_poller_def run poll_step_exhausted [OF stop]
    using False
    by (auto simp: or_else_def timeout_response_def respond_def split: option.splits)
qed

text \<open>
  With a ceiling of 3: \<open>UPLOADED\<close>, an empty status, then \<open>PROCESSING\<close>; three queries,
  and the status of the third attempt is reported.
\<close>

theorem poller_exhausts_ceiling_witness:
  "readiness_poller 3
     (answers [Some (generic_file_node (Some ''UPLOADED'') None),
               Some (generic_file_node (Some []) None),
               Some (generic_file_node (Some ''PROCESSING'') None)])
     ''gid://1'' =
     (Inr \<lparr>status = 500,
            body = Some [(''error'', JString ''File did not become READY in time''),
                         (''status'', JString ''PROCESSING'')]\<rparr>,
      [PollNode ''gid://1'', PollNode ''gid://1'', PollNode ''gid://1''])"
proof -
  have pending: "\<forall>j. int j < 3 \<longrightarrow>
      still_pending
        (answers [Some (generic_file_node (Some ''UPLOADED'') None),
                  Some (generic_file_node (Some []) None),
                  Some (generic_file_node (Some ''PROCESSING'') None)] j)"
  proof (intro allI impI)
    fix j :: nat
    assume "int j < 3"
    then consider "j = 0" | "j = 1" | "j = 2" by linarith
    then show "still_pending
        (answers [Some (generic_file_node (Some ''UPLOADED'') None),
                  Some (generic_file_node (Some []) None),
                  Some (generic_file_node (Some ''PROCESSING'') None)] j)"
      by cases (simp_all add: answers_def generic_file_node_def ready_with_url_def)
  qed
  have last: "status_seen
        (answers [Some (generic_file_node (Some ''UPLOADED'') None),
                  Some (generic_file_node (Some []) None),
                  Some (generic_file_node (Some ''PROCESSING'') None)] (nat 3 - 1))
      = Some ''PROCESSING''"
    by (simp add: answers_def generic_file_node_def)
  show ?thesis
    unfolding poller_exhausts_ceiling [OF pending, of "''gid://1''"] last
    by (simp add: numeral_3_eq_3)
qed

text \<open>
  The claim as written allows \<open>UNKNOWN\<close> only if no status was ever observed, and the
  spec speaks of the last observed non-null status. After \<open>PROCESSING\<close> and then a node
  without a status, with a ceiling of 2, the route reports \<open>UNKNOWN\<close>.
\<close>

theorem last_status_overwritten_counterexample:
  "readiness_poller 2
     (answers [Some (generic_file_node (Some ''PROCESSING'') None), Some other_node])
     ''gid://1'' =
     (Inr \<lparr>status = 500,
            body = Some [(''error'', JString ''File did not become READY in time''),
                         (''status'', JString ''UNKNOWN'')]\<rparr>,
      [PollNode ''gid://1'', PollNode ''gid://1''])
   \<and> status_seen
        (answers [Some (generic_file_node (Some ''PROCESSING'') None), Some other_node] 0)
       = Some ''PROCESSING''
   \<and> spec_last_observed
        [status_seen
           (answers [Some (generic_file_node (Some ''PROCESSING'') None), Some other_node] 0),
         status_seen
           (answers [Some (generic_file_node (Some ''PROCESSING'') None), Some other_node] 1)]
       = ''PROCESSING''
   \<and> ''UNKNOWN'' \<noteq> ''PROCESSING''"
  by (simp add: readiness_poller_def poll_loop.simps answers_def generic_file_node_def
        other_node_def or_else_def spec_last_observed_def List.map_filter_def
        timeout_response_def respond_def)




text \<open>
  Claim C3. Take any attempt within the ceiling that sees a node whose status is READY
  but whose kind-specific URL is missing: no \<open>url\<close> on a GenericFile, no \<open>image\<close> or no
  \<open>image.url\<close> on a MediaImage, no \<open>sources\<close>, no first source or no \<open>url\<close> of the
  first source on a Video. The loop does not end there. The query of this attempt is
  made; if a further attempt is within the ceiling its query is made as well, whatever
  the platform answers to it; if this was the last attempt the loop ends with
  \<open>finalUrl\<close> unchanged and READY as last status. In both cases the outcome is that of
  the loop taken up at the next attempt.
\<close>

theorem ready_without_url_keeps_polling:
  assumes "int i < c" and "reply i = Resolved [] (Some n)" and "fileStatus n = Some ''READY''"
    and "typename n = ''GenericFile'' \<longrightarrow> node_url n = None"
    and "typename n = ''MediaImage'' \<longrightarrow>
           (case node_image n of None \<Rightarrow> True | Some im \<Rightarrow> image_url im = None)"
    and "typename n = ''Video'' \<longrightarrow>
           (case sources n of
              None \<Rightarrow> True
            | Some [] \<Rightarrow> True
            | Some (s # rest) \<Rightarrow> source_url s = None)"
  shows "(int (Suc i) < c \<longrightarrow>
            (\<exists>later. snd (poll_loop c reply ident i st cs) =
                      cs @ [PollNode ident, PollNode ident] @ later))
         \<and> (\<not> int (Suc i) < c \<longrightarrow>
              poll_loop c reply ident i st cs =
                (Inr (st\<lparr>lastStatus := Some ''READY''\<rparr>), cs @ [PollNode ident]))
         \<and> poll_loop c reply ident i st cs =
             poll_loop c reply ident (Suc i) (st\<lparr>lastStatus := Some ''READY''\<rparr>)
               (cs @ [PollNode ident])"
proof -
  let ?st = "st\<lparr>lastStatus := Some ''READY''\<rparr>"
  let ?cs = "cs @ [PollNode ident]"
  have step: "poll_loop c reply ident i st cs = poll_loop c reply ident (Suc i) ?st ?cs"
    using assms
    by (subst poll_loop.simps)
      (auto simp: image_url_of_def first_source_url_def split: option.splits list.splits)
  have further: "\<exists>later. snd (poll_loop c reply ident (Suc i) ?st ?cs) =
      cs @ [PollNode ident, PollNode ident] @ later" if "int (Suc i) < c"
    using poll_loop_queries_first [OF that, of reply ident ?st ?cs] by simp
  have stop: "poll_loop c reply ident (Suc i) ?st ?cs = (Inr ?st, ?cs)" if "\<not> int (Suc i) < c"
    using that by (rule poll_step_exhausted)
  show ?thesis
    using further stop unfolding step by blast
qed

text \<open>
  Three such nodes in a row, one of each kind, then a null node: four queries are made
  and no URL is found. With a ceiling of 1 the single attempt is used up.
\<close>

theorem ready_without_url_keeps_polling_witness:
  "poll_loop 30
     (answers [Some (generic_file_node (Some ''READY'') None),
               Some (media_image_node (Some ''READY'') None),
               Some (video_node (Some ''READY'') []), None])
     ''gid://1'' 0 \<lparr>finalUrl = None, lastStatus = None\<rparr> [] =
     (Inr \<lparr>finalUrl = None, lastStatus = Some ''READY''\<rparr>,
      [PollNode ''gid://1'', PollNode ''gid://1'', PollNode ''gid://1'', PollNode ''gid://1''])
   \<and> poll_loop 1 (answers [Some (generic_file_node (Some ''READY'') None)])
       ''gid://1'' 0 \<lparr>finalUrl = None, lastStatus = None\<rparr> [] =
     (Inr \<lparr>finalUrl = None, lastStatus = Some ''READY''\<rparr>, [PollNode ''gid://1''])"
proof -
  let ?R = "answers [Some (generic_file_node (Some ''READY'') None),
               Some (media_image_node (Some ''READY'') None),
               Some (video_node (Some ''READY'') []), None]"
  let ?init = "\<lparr>finalUrl = None, lastStatus = None\<rparr>"
  let ?ready = "\<lparr>finalUrl = None, lastStatus = Some ''READY''\<rparr>"
  let ?p = "PollNode ''gid://1''"
  have a: "poll_loop 30 ?R ''gid://1'' 0 ?init [] = poll_loop 30 ?R ''gid://1'' (Suc 0) ?ready [?p]"
    using ready_without_url_keeps_polling
      [of 0 30 ?R "generic_file_node (Some ''READY'') None" "''gid://1''" ?init "[]"]
    by (simp add: answers_def generic_file_node_def)
  have b: "poll_loop 30 ?R ''gid://1'' (Suc 0) ?ready [?p] =
           poll_loop 30 ?R ''gid://1'' (Suc (Suc 0)) ?ready [?p, ?p]"
    using ready_without_url_keeps_polling
      [of "Suc 0" 30 ?R "media_image_node (Some ''READY'') None" "''gid://1''" ?ready "[?p]"]
    by (simp add: answers_def media_image_node_def)
  have c: "poll_loop 30 ?R ''gid://1'' (Suc (Suc 0)) ?ready [?p, ?p] =
           poll_loop 30 ?R ''gid://1'' (Suc (Suc (Suc 0))) ?ready [?p, ?p, ?p]"
    using ready_without_url_keeps_polling
      [of "Suc (Suc 0)" 30 ?R "video_node (Some ''READY'') []" "''gid://1''" ?ready "[?p, ?p]"]
    by (simp add: answers_def video_node_def)
  have d: "poll_loop 30 ?R ''gid://1'' (Suc (Suc (Suc 0))) ?ready [?p, ?p, ?p] =
           (Inr ?ready, [?p, ?p, ?p, ?p])"
    using poll_step_null [of "Suc (Suc (Suc 0))" 30 ?R "''gid://1''" ?ready "[?p, ?p, ?p]"]
    by (simp add: answers_def)
  have e: "poll_loop 1 (answers [Some (generic_file_node (Some ''READY'') None)])
       ''gid://1'' 0 ?init [] = (Inr ?ready, [?p])"
    using ready_without_url_keeps_polling
      [of 0 1 "answers [Some (generic_file_node (Some ''READY'') None)]"
          "generic_file_node (Some ''READY'') None" "''gid://1''" ?init "[]"]
    by (simp add: answers_def generic_file_node_def)
  show ?thesis
    using a b c d e by simp
qed

text \<open>
  Claim C4. If attempt \<open>k + 1\<close> (within the ceiling) is the first to see READY together
  with the URL of its kind (\<open>url\<close> of a GenericFile, \<open>image.url\<close> of a MediaImage,
  \<open>url\<close> of the first source of a Video), whatever the earlier attempts saw short of
  that, the poller makes exactly \<open>k + 1\<close> status queries and answers 200 with that URL.
\<close>

theorem first_ready_with_url_succeeds:
  assumes "int k < c" and "\<forall>j<k. still_pending (reply j)"
    and "reply k = Resolved [] (Some n)"
    and "fileStatus n = Some ''READY''"
    and "(typename n = ''GenericFile'' \<and> node_url n = Some u)
         \<or> (typename n = ''MediaImage'' \<and> node_image n = Some im \<and> image_url im = Some u)
         \<or> (typename n = ''Video'' \<and> sources n = Some (s # rest) \<and> source_url s = Some u)"
    and "u \<noteq> []"
  shows "readiness_poller c reply ident =
         (Inr \<lparr>status = 200, body = Some [(''url'', JString u)]\<rparr>,
          replicate (Suc k) (PollNode ident))"
proof -
  let ?init = "\<lparr>finalUrl = None, lastStatus = None\<rparr>"
  have url: "extractable_url n = Some u"
    using assms(5,6) by (auto simp: extractable_url_def)
  have run: "poll_loop c reply ident 0 ?init [] =
      poll_loop c reply ident (0 + k)
        (?init\<lparr>lastStatus := (if k = 0 then lastStatus ?init else status_seen (reply (0 + k - 1)))\<rparr>)
        ([] @ replicate k (PollNode ident))"
    using assms(1,2) by (intro poll_loop_run) auto
  have here: "int (0 + k) < c" and ans: "reply (0 + k) = Resolved [] (Some n)"
    using assms(1,3) by simp_all
  have fin: "poll_loop c reply ident (0 + k) st' cs' =
      (Inr (st'\<lparr>lastStatus := Some ''READY'', finalUrl := Some u\<rparr>), cs' @ [PollNode ident])"
    for st' cs'
    using here ans assms(4) url by (rule poll_step_ready)
  show ?thesis
    unfolding readiness_poller_def run fin
    using assms(6) by (simp add: replicate_append_same respond_def)
qed

text \<open>
  The scenario (\<open>PENDING\<close>, then a READY MediaImage with its image URL), a READY
  GenericFile on the first attempt, and a Video that is READY without sources before
  it is READY with two sources: the URL of the first is returned.
\<close>

theorem first_ready_with_url_succeeds_witness:
  "readiness_poller 30
     (answers [Some (media_image_node (Some ''PENDING'') None),
               Some (media_image_node (Some ''READY'') (Some ''https://cdn/cat.png''))])
     ''gid://1'' =
     (Inr \<lparr>status = 200, body = Some [(''url'', JString ''https://cdn/cat.png'')]\<rparr>,
      [PollNode ''gid://1'', PollNode ''gid://1''])
   \<and> readiness_poller 30
       (answers [Some (generic_file_node (Some ''READY'') (Some ''https://cdn/a.pdf''))])
       ''gid://2'' =
     (Inr \<lparr>status = 200, body = Some [(''url'', JString ''https://cdn/a.pdf'')]\<rparr>,
      [PollNode ''gid://2''])
   \<and> readiness_poller 2
       (answers [Some (video_node (Some ''READY'') []),
                 Some (video_node (Some ''READY'')
                         [\<lparr>source_url = Some ''https://cdn/v.mp4'', source_format = Some ''mp4''\<rparr>,
                          \<lparr>source_url = Some ''https://cdn/v.m3u8'', source_format = Some ''m3u8''\<rparr>])])
       ''gid://3'' =
     (Inr \<lparr>status = 200, body = Some [(''url'', JString ''https://cdn/v.mp4'')]\<rparr>,
      [PollNode ''gid://3'', PollNode ''gid://3''])"
  using
    first_ready_with_url_succeeds
      [of 1 30 "answers [Some (media_image_node (Some ''PENDING'') None),
               Some (media_image_node (Some ''READY'') (Some ''https://cdn/cat.png''))]"
          "media_image_node (Some ''READY'') (Some ''https://cdn/cat.png'')"
          "''https://cdn/cat.png''" "\<lparr>image_url = Some ''https://cdn/cat.png''\<rparr>" _ _
          "''gid://1''"]
    first_ready_with_url_succeeds
      [of 0 30 "answers [Some (generic_file_node (Some ''READY'') (Some ''https://cdn/a.pdf''))]"
          "generic_file_node (Some ''READY'') (Some ''https://cdn/a.pdf'')"
          "''https://cdn/a.pdf''" _ _ _ "''gid://2''"]
    first_ready_with_url_succeeds
      [of 1 2 "answers [Some (video_node (Some ''READY'') []),
                 Some (video_node (Some ''READY'')
                         [\<lparr>source_url = Some ''https://cdn/v.mp4'', source_format = Some ''mp4''\<rparr>,
                          \<lparr>source_url = Some ''https://cdn/v.m3u8'', source_format = Some ''m3u8''\<rparr>])]"
          "video_node (Some ''READY'')
                         [\<lparr>source_url = Some ''https://cdn/v.mp4'', source_format = Some ''mp4''\<rparr>,
                          \<lparr>source_url = Some ''https://cdn/v.m3u8'', source_format = Some ''m3u8''\<rparr>]"
          "''https://cdn/v.mp4''" _
          "\<lparr>source_url = Some ''https://cdn/v.mp4'', source_format = Some ''mp4''\<rparr>"
          "[\<lparr>source_url = Some ''https://cdn/v.m3u8'', source_format = Some ''m3u8''\<rparr>]"
          "''gid://3''"]
  by (simp add: answers_def media_image_node_def generic_file_node_def video_node_def
        ready_with_url_def extractable_url_def)

section \<open>The upload route, end to end\<close>


text \<open>
  For every other status outside 200 to 299 the response carries the backend's status
  and its body as details, and no \<open>fileCreate\<close> call is made.
\<close>

theorem storage_failure_propagated:
  assumes "staged_result w = Resolved [] s" and "userErrors s = []"
    and "stagedTargets s = target # others"
    and "storage_result w = Inr r"
    and "\<not> (200 \<le> storage_status r \<and> storage_status r < 300)"
    and "storage_status r \<noteq> 304"
    and "storage_text r = Inr t"
  shows "upload_handler c w (Some f) =
           (\<lparr>status = storage_status r,
             body = Some [(''error'', JString ''Storage upload failed''),
                          (''details'', JString t)]\<rparr>,
            [StagedUploadsCreate (originalname f) (mimetype f) (fsize f),
             StorageUpload (url target) (uploadForm target f)])
         \<and> \<not> list_ex is_FileCreate (snd (upload_handler c w (Some f)))"
  using assms(5,6)
  by (auto simp: storage_failure_response [OF assms(1-5) assms(7)] respond_def)

text \<open>The scenario: the backend answers 403 with body \<open>Forbidden\<close>.\<close>

theorem storage_failure_propagated_witness:
  "upload_handler 30 (world \<lparr>stagedTargets = [target_T], userErrors = []\<rparr> 403 ''Forbidden'')
     (Some cat_png) =
     (\<lparr>status = 403,
       body = Some [(''error'', JString ''Storage upload failed''),
                    (''details'', JString ''Forbidden'')]\<rparr>,
      [StagedUploadsCreate ''cat.png'' ''image/png'' 1024,
       StorageUpload ''https://storage.example/upload'' (uploadForm target_T cat_png)])
   \<and> \<not> list_ex is_FileCreate
         (snd (upload_handler 30
                 (world \<lparr>stagedTargets = [target_T], userErrors = []\<rparr> 403 ''Forbidden'')
                 (Some cat_png)))"
  using storage_failure_propagated
    [of "world \<lparr>stagedTargets = [target_T], userErrors = []\<rparr> 403 ''Forbidden''"
        "\<lparr>stagedTargets = [target_T], userErrors = []\<rparr>" target_T "[]"
        "\<lparr>storage_status = 403, storage_text = Inr ''Forbidden''\<rparr>" "''Forbidden''" 30 cat_png]
  by (simp add: world_def cat_png_def target_T_def)

text \<open>
  Claim C6, as the code has it. On a storage failure the status of the route's response
  is the storage backend's own status, not a fixed 500.
\<close>

theorem storage_failure_status:
  assumes "staged_result w = Resolved [] s" and "userErrors s = []"
    and "stagedTargets s = target # others"
    and "storage_result w = Inr r"
    and "\<not> (200 \<le> storage_status r \<and> storage_status r < 300)"
    and "storage_text r = Inr t"
  shows "status (fst (upload_handler c w (Some f))) = storage_status r"
proof -
  have "\<not> ok r"
    using assms(5) by (simp add: ok_def)
  then show ?thesis
    by (simp add: upload_handler_def try_upload_staged [OF assms(1-3)]
          upload_blob_failure [OF assms(4) _ assms(6)] respond_def)
qed

theorem storage_failure_status_witness:
  "status (fst (upload_handler 30
                  (world \<lparr>stagedTargets = [target_T], userErrors = []\<rparr> 502 ''Bad Gateway'')
                  (Some cat_png))) = 502"
  using storage_failure_status
    [of "world \<lparr>stagedTargets = [target_T], userErrors = []\<rparr> 502 ''Bad Gateway''"
        "\<lparr>stagedTargets = [target_T], userErrors = []\<rparr>" target_T "[]"
        "\<lparr>storage_status = 502, storage_text = Inr ''Bad Gateway''\<rparr>" "''Bad Gateway''" 30 cat_png]
  by (simp add: world_def)

text \<open>The claim as written says 500; for a backend answering 403 the route answers 403.\<close>

theorem storage_failure_not_500_counterexample:
  "status (fst (upload_handler 30
                  (world \<lparr>stagedTargets = [target_T], userErrors = []\<rparr> 403 ''Forbidden'')
                  (Some cat_png))) \<noteq> 500"
  by (simp add: upload_handler_def try_upload_def upload_blob_def world_def callAdmin_def
        ok_def respond_def)

text \<open>
  Claim C7. The form posted to the staged target's URL holds one field per staged
  parameter, with its name and value and in the platform's order, followed by a single
  file entry named \<open>file\<close> with the bytes, the original filename and the MIME type.
\<close>

theorem multipart_form_fields:
  assumes "staged_result w = Resolved [] s" and "userErrors s = []"
    and "stagedTargets s = target # others"
  shows "\<exists>later. snd (upload_handler c w (Some f)) =
           StagedUploadsCreate (originalname f) (mimetype f) (fsize f)
           # StorageUpload (url target)
               (map (\<lambda>p. FormField (param_name p) (param_value p)) (parameters target)
                @ [FileEntry ''file'' (buffer f) (originalname f) (mimetype f)])
           # later"
proof -
  obtain later where "snd (upload_blob c w f target) =
      StorageUpload (url target) (uploadForm target f) # later"
    using upload_blob_calls by blast
  then show ?thesis
    by (auto simp: upload_handler_def try_upload_staged [OF assms] uploadForm_entries
          split: prod.splits sum.splits)
qed

theorem multipart_form_fields_witness:
  "snd (upload_handler 30 (world \<lparr>stagedTargets = [target_T], userErrors = []\<rparr> 403 ''Forbidden'')
          (Some cat_png)) =
     [StagedUploadsCreate ''cat.png'' ''image/png'' 1024,
      StorageUpload ''https://storage.example/upload''
        [FormField ''key'' ''tmp/cat.png'', FormField ''policy'' ''abc'',
         FileEntry ''file'' [137, 80, 78, 71] ''cat.png'' ''image/png'']]"
proof -
  obtain later where *:
    "snd (upload_handler 30
            (world \<lparr>stagedTargets = [target_T], userErrors = []\<rparr> 403 ''Forbidden'')
            (Some cat_png)) =
       StagedUploadsCreate (originalname cat_png) (mimetype cat_png) (fsize cat_png)
       # StorageUpload (url target_T)
           (map (\<lambda>p. FormField (param_name p) (param_value p)) (parameters target_T)
            @ [FileEntry ''file'' (buffer cat_png) (originalname cat_png) (mimetype cat_png)])
       # later"
    using multipart_form_fields
      [of "world \<lparr>stagedTargets = [target_T], userErrors = []\<rparr> 403 ''Forbidden''"
          "\<lparr>stagedTargets = [target_T], userErrors = []\<rparr>" target_T "[]" 30 cat_png]
    by (auto simp: world_def)
  have "length (snd (upload_handler 30
            (world \<lparr>stagedTargets = [target_T], userErrors = []\<rparr> 403 ''Forbidden'')
            (Some cat_png))) = 2"
    by (simp add: upload_handler_def try_upload_def upload_blob_def world_def ok_def)
  with * have "later = []" by simp
  with * show ?thesis
    by (simp add: cat_png_def target_T_def)
qed

text \<open>
  Claim C8. \<open>getShopifyContentType\<close> is a function of the MIME type alone: a string
  that starts with \<open>video/\<close> gives VIDEO, one that starts with \<open>image/\<close> gives IMAGE,
  and any string that starts with neither gives FILE.
\<close>

theorem content_type_by_prefix:
  "getShopifyContentType (''video/'' @ rest) = ''VIDEO''
   \<and> getShopifyContentType (''image/'' @ rest') = ''IMAGE''
   \<and> ((\<nexists>r. m = ''video/'' @ r) \<and> (\<nexists>r. m = ''image/'' @ r)
        \<longrightarrow> getShopifyContentType m = ''FILE'')"
proof -
  have v: "startsWith (''video/'' @ rest) ''video/''"
    and i: "startsWith (''image/'' @ rest') ''image/''"
    and ni: "\<not> startsWith (''image/'' @ rest') ''video/''"
    by (simp_all add: startsWith_def)
  show ?thesis
    using v i ni by (auto simp: getShopifyContentType_def starts_with_iff)
qed

theorem content_type_by_prefix_witness:
  "getShopifyContentType ''video/mp4'' = ''VIDEO''
   \<and> getShopifyContentType ''image/png'' = ''IMAGE''
   \<and> getShopifyContentType ''application/pdf'' = ''FILE''"
  using content_type_by_prefix [of "''mp4''" "''png''" "''application/pdf''"]
  by simp

text \<open>
  Claim C9. When the staging call returns a non-empty \<open>userErrors\<close> list, the route
  answers 422 with exactly that list, and the staging call is the only call made.
\<close>

theorem staging_user_errors_422:
  assumes "staged_result w = Resolved [] s" and "userErrors s \<noteq> []"
  shows "upload_handler c w (Some f) =
           (\<lparr>status = 422, body = Some [(''errors'', JErrors (userErrors s))]\<rparr>,
            [StagedUploadsCreate (originalname f) (mimetype f) (fsize f)])"
  using assms by (simp add: upload_handler_def try_upload_def respond_def)

text \<open>The scenario: one user error on \<open>filename\<close>.\<close>

theorem staging_user_errors_422_witness:
  "upload_handler 30
     (world \<lparr>stagedTargets = [],
             userErrors = [\<lparr>ue_field = ''filename'', ue_message = ''required''\<rparr>]\<rparr> 200 [])
     (Some cat_png) =
     (\<lparr>status = 422,
       body = Some [(''errors'', JErrors [\<lparr>ue_field = ''filename'', ue_message = ''required''\<rparr>])]\<rparr>,
      [StagedUploadsCreate ''cat.png'' ''image/png'' 1024])"
  using staging_user_errors_422
    [of "world \<lparr>stagedTargets = [],
             userErrors = [\<lparr>ue_field = ''filename'', ue_message = ''required''\<rparr>]\<rparr> 200 []"
        "\<lparr>stagedTargets = [],
             userErrors = [\<lparr>ue_field = ''filename'', ue_message = ''required''\<rparr>]\<rparr>" 30 cat_png]
  by (simp add: world_def cat_png_def)

text \<open>
  Claim C10. When the staging call returns no user errors and no staged target, reading
  \<open>resourceUrl\<close> of the missing target throws, the \<open>catch\<close> block answers 500 with
  the error's message under \<open>error\<close>, and nothing after the staging call is called.
\<close>

theorem no_staged_target_500:
  assumes "staged_result w = Resolved [] s" and "userErrors s = []" and "stagedTargets s = []"
  shows "upload_handler c w (Some f) =
           (\<lparr>status = 500,
             body = Some [(''error'',
                      JString ''Cannot read properties of undefined (reading 'resourceUrl')'')]\<rparr>,
            [StagedUploadsCreate (originalname f) (mimetype f) (fsize f)])"
  using assms by (simp add: upload_handler_def try_upload_def respond_def cannot_read_def)

theorem no_staged_target_500_witness:
  "upload_handler 30 (world \<lparr>stagedTargets = [], userErrors = []\<rparr> 200 []) (Some cat_png) =
     (\<lparr>status = 500,
       body = Some [(''error'',
                JString ''Cannot read properties of undefined (reading 'resourceUrl')'')]\<rparr>,
      [StagedUploadsCreate ''cat.png'' ''image/png'' 1024])"
  using no_staged_target_500
    [of "world \<lparr>stagedTargets = [], userErrors = []\<rparr> 200 []"
        "\<lparr>stagedTargets = [], userErrors = []\<rparr>" 30 cat_png]
  by (simp add: world_def cat_png_def)

end
